theory Spec2Isabelle
  imports Complex_Main
begin

section \<open>Python runtime: decimal rendering of integers, sum\<close>

text \<open>
  The validator and the audit trail build their messages with f-strings. An integer field
  is rendered in decimal, as \<^verbatim>\<open>str(int)\<close> does. A float field is rendered by
  Python's float formatting, which is not part of the repository: the functions below take
  it as a parameter (\<open>fstr\<close> for the default \<^verbatim>\<open>{x}\<close> format, \<open>fgrp\<close> for
  \<^verbatim>\<open>{x:,.0f}\<close>). Floats themselves are idealised as \<open>real\<close>: rounding, infinities
  and NaN are outside the model.
\<close>

definition digit_char :: "nat \<Rightarrow> char" where
  "digit_char d = char_of (48 + d)"

fun str_nat :: "nat \<Rightarrow> string" where
  "str_nat n = (if n < 10 then [digit_char n] else str_nat (n div 10) @ [digit_char (n mod 10)])"

declare str_nat.simps [simp del]

definition str_int :: "int \<Rightarrow> string" where
  "str_int i = (if i < 0 then ''-'' @ str_nat (nat (- i)) else str_nat (nat i))"

text \<open>\<^verbatim>\<open>sum(...)\<close> adds from the left, starting at 0.\<close>

definition py_sum :: "real list \<Rightarrow> real" where
  "py_sum xs = foldl (+) 0 xs"

definition NL :: string where
  "NL = [CHR 0x0A]"

section \<open>Data model (schemas.py)\<close>

datatype ExposureClass =
    CENTRAL_GOVERNMENTS
  | INSTITUTIONS
  | CORPORATES
  | RETAIL
  | RESIDENTIAL_MORTGAGES
  | COMMERCIAL_REAL_ESTATE

text \<open>The \<^verbatim>\<open>.value\<close> of each enum member.\<close>

fun exposure_class_value :: "ExposureClass \<Rightarrow> string" where
  "exposure_class_value CENTRAL_GOVERNMENTS = ''Central governments or central banks''"
| "exposure_class_value INSTITUTIONS = ''Institutions''"
| "exposure_class_value CORPORATES = ''Corporates''"
| "exposure_class_value RETAIL = ''Retail''"
| "exposure_class_value RESIDENTIAL_MORTGAGES =
     ''Exposures secured by mortgages on residential property''"
| "exposure_class_value COMMERCIAL_REAL_ESTATE =
     ''Exposures secured by mortgages on commercial immovable property''"

record RegulatoryReference =
  article_number :: int
  source :: string
  excerpt :: string

record CR1Row =
  exposure_class :: ExposureClass
  original_exposure_value :: real
  risk_weight_percent :: int
  risk_weighted_assets :: real
  regulatory_references :: "RegulatoryReference list"

text \<open>
  Rows, templates and validators are Python objects: they are passed by reference and
  could be mutated by any method that receives them. They live in a store with one
  component per class; a template's \<open>rows\<close> is a list of references to row objects.
\<close>

type_synonym addr = nat

record CR1Template =
  rows :: "addr list"
  total_exposure :: real
  total_rwa :: real

text \<open>\<^verbatim>\<open>CR1Validator.__init__\<close> creates the two lists \<^verbatim>\<open>self.errors\<close> and \<^verbatim>\<open>self.warnings\<close>.\<close>

record CR1Validator =
  self_errors :: "string list"
  self_warnings :: "string list"

record heap =
  row_at :: "addr \<Rightarrow> CR1Row"
  template_at :: "addr \<Rightarrow> CR1Template"
  validator_at :: "addr \<Rightarrow> CR1Validator"

definition calculate_rwa :: "heap \<Rightarrow> addr \<Rightarrow> real" where
  "calculate_rwa h self =
     original_exposure_value (row_at h self)
       * (real_of_int (risk_weight_percent (row_at h self)) / 100)"

definition validate_totals :: "(real \<Rightarrow> string) \<Rightarrow> heap \<Rightarrow> addr \<Rightarrow> string list" where
  "validate_totals fstr h self =
     (let t = template_at h self;
          errors0 = [];
          calculated_exposure = py_sum (map (\<lambda>row. original_exposure_value (row_at h row)) (rows t));
          calculated_rwa = py_sum (map (\<lambda>row. risk_weighted_assets (row_at h row)) (rows t));
          errors1 = (if \<bar>calculated_exposure - total_exposure t\<bar> > 0.01
                     then errors0 @ [''Total exposure mismatch: declared '' @ fstr (total_exposure t)
                                      @ '', calculated '' @ fstr calculated_exposure]
                     else errors0);
          errors2 = (if \<bar>calculated_rwa - total_rwa t\<bar> > 0.01
                     then errors1 @ [''Total RWA mismatch: declared '' @ fstr (total_rwa t)
                                      @ '', calculated '' @ fstr calculated_rwa]
                     else errors1)
      in errors2)"

section \<open>The validator (validation/validator.py)\<close>

definition CR1Validator_init :: "heap \<Rightarrow> addr \<Rightarrow> heap" where
  "CR1Validator_init h self =
     h\<lparr>validator_at := (validator_at h)(self := \<lparr>self_errors = [], self_warnings = []\<rparr>)\<rparr>"

text \<open>\<^verbatim>\<open>self.warnings.append(w)\<close>: the only write the validator ever performs.\<close>

definition warnings_append :: "heap \<Rightarrow> addr \<Rightarrow> string \<Rightarrow> heap" where
  "warnings_append h self w =
     h\<lparr>validator_at := (validator_at h)
        (self := (validator_at h self)\<lparr>self_warnings := self_warnings (validator_at h self) @ [w]\<rparr>)\<rparr>"

definition validate_row :: "(real \<Rightarrow> string) \<Rightarrow> heap \<Rightarrow> addr \<Rightarrow> addr \<Rightarrow> string list \<times> heap" where
  "validate_row fstr h self row =
     (let r = row_at h row;
          errors0 = [];
          errors1 = (if original_exposure_value r \<le> 0
                     then errors0 @ [''Invalid exposure value: '' @ fstr (original_exposure_value r)]
                     else errors0);
          errors2 = (if risk_weight_percent r < 0 \<or> risk_weight_percent r > 1250
                     then errors1 @ [''Invalid risk weight: '' @ str_int (risk_weight_percent r) @ ''%'']
                     else errors1);
          expected_rwa = calculate_rwa h row;
          errors3 = (if \<bar>risk_weighted_assets r - expected_rwa\<bar> > 0.01
                     then errors2 @ [''RWA mismatch: declared '' @ fstr (risk_weighted_assets r)
                                      @ '', calculated '' @ fstr expected_rwa]
                     else errors2);
          h' = (if regulatory_references r = []
                then warnings_append h self
                       (''No regulatory references for '' @ exposure_class_value (exposure_class r))
                else h)
      in (errors3, h'))"

text \<open>
  The dictionary returned by \<^verbatim>\<open>validate_template\<close>. Its \<^verbatim>\<open>'warnings'\<close> entry is not a
  copy: it is the validator's own list object \<^verbatim>\<open>self.warnings\<close>, so it is kept as a
  reference and read through the store.
\<close>

datatype list_ref = WarningsOf addr

fun deref :: "heap \<Rightarrow> list_ref \<Rightarrow> string list" where
  "deref h (WarningsOf v) = self_warnings (validator_at h v)"

record ValidationResult =
  is_valid :: bool
  errors :: "string list"
  warnings :: list_ref

text \<open>The loop \<^verbatim>\<open>for i, row in enumerate(template.rows)\<close>, with \<open>all_errors\<close> accumulated.\<close>

fun validate_rows ::
  "(real \<Rightarrow> string) \<Rightarrow> addr \<Rightarrow> nat \<Rightarrow> addr list \<Rightarrow> string list \<Rightarrow> heap \<Rightarrow> string list \<times> heap" where
  "validate_rows fstr self i [] all_errors h = (all_errors, h)"
| "validate_rows fstr self i (row # rest) all_errors h =
     (let (row_errors, h') = validate_row fstr h self row;
          all_errors' = (if row_errors \<noteq> []
                         then all_errors @ map (\<lambda>err. ''Row '' @ str_nat (i + 1) @ '': '' @ err) row_errors
                         else all_errors)
      in validate_rows fstr self (i + 1) rest all_errors' h')"

definition validate_template ::
  "(real \<Rightarrow> string) \<Rightarrow> heap \<Rightarrow> addr \<Rightarrow> addr \<Rightarrow> ValidationResult \<times> heap" where
  "validate_template fstr h self template =
     (let (all_errors, h') = validate_rows fstr self 0 (rows (template_at h template)) [] h;
          total_errors = validate_totals fstr h' template;
          all_errors' = all_errors @ total_errors
      in (\<lparr>is_valid = (length all_errors' = 0), errors = all_errors', warnings = WarningsOf self\<rparr>, h'))"

section \<open>The audit trail (validation/validator.py)\<close>

text \<open>
  The pound sign and the bullet of the source are not ASCII; they are kept as their UTF-8
  bytes.
\<close>

definition POUND :: string where
  "POUND = [CHR 0xC2, CHR 0xA3]"

definition BULLET :: string where
  "BULLET = [CHR 0xE2, CHR 0x80, CHR 0xA2]"

text \<open>The inner loop \<^verbatim>\<open>for ref in row.regulatory_references\<close>.\<close>

fun trail_references :: "RegulatoryReference list \<Rightarrow> string \<Rightarrow> string" where
  "trail_references [] trail = trail"
| "trail_references (ref # rest) trail =
     (let trail1 = trail @ (''    '' @ BULLET @ '' '' @ source ref @ NL);
          trail2 = trail1 @ (''      '' @ excerpt ref @ NL)
      in trail_references rest trail2)"

text \<open>The outer loop \<^verbatim>\<open>for i, row in enumerate(rows, 1)\<close>.\<close>

fun trail_rows :: "(real \<Rightarrow> string) \<Rightarrow> heap \<Rightarrow> nat \<Rightarrow> addr list \<Rightarrow> string \<Rightarrow> string" where
  "trail_rows fgrp h i [] trail = trail"
| "trail_rows fgrp h i (row # rest) trail =
     (let r = row_at h row;
          trail1 = trail @ (''Row '' @ str_nat i @ '': '' @ exposure_class_value (exposure_class r) @ NL);
          trail2 = trail1 @ (''  Exposure: '' @ POUND @ fgrp (original_exposure_value r) @ NL);
          trail3 = trail2 @ (''  Risk Weight: '' @ str_int (risk_weight_percent r) @ ''%'' @ NL);
          trail4 = trail3 @ (''  RWA: '' @ POUND @ fgrp (risk_weighted_assets r) @ NL);
          trail5 = trail4 @ (NL @ ''  Regulatory Basis:'' @ NL);
          trail6 = trail_references (regulatory_references r) trail5;
          trail7 = trail6 @ (NL @ replicate 70 (CHR ''-'') @ NL @ NL)
      in trail_rows fgrp h (i + 1) rest trail7)"

definition generate_audit_trail :: "(real \<Rightarrow> string) \<Rightarrow> heap \<Rightarrow> addr list \<Rightarrow> string" where
  "generate_audit_trail fgrp h rows_arg =
     (let trail0 = ''AUDIT TRAIL - REGULATORY JUSTIFICATION'' @ NL;
          trail1 = trail0 @ (replicate 70 (CHR ''='') @ NL @ NL)
      in trail_rows fgrp h 1 rows_arg trail1)"

section \<open>Similarity search (retrieval/retriever.py)\<close>

text \<open>
  The chunks come from a pickle file and the embedding model is a third-party library:
  both are parameters. A chunk is the dictionary built by \<^verbatim>\<open>chunk_documents\<close>.
  The two ways the NumPy and list operations of \<^verbatim>\<open>search\<close> can raise are values of
  \<open>py_error\<close>.
\<close>

datatype py_error = ValueError | IndexError

record ChunkMetadata =
  meta_article_number :: int
  meta_source :: string

record Chunk =
  chunk_text :: string
  metadata :: ChunkMetadata

record SearchResult =
  res_text :: string
  res_article_number :: int
  res_source :: string
  relevance_score :: real

record RegulatoryRetriever =
  chunks :: "Chunk list"
  embedder :: "string \<Rightarrow> real list"
  embeddings :: "real list list"

definition RegulatoryRetriever_init :: "(string \<Rightarrow> real list) \<Rightarrow> Chunk list \<Rightarrow> RegulatoryRetriever" where
  "RegulatoryRetriever_init encode loaded =
     \<lparr>chunks = loaded, embedder = encode, embeddings = map (\<lambda>chunk. encode (chunk_text chunk)) loaded\<rparr>"

text \<open>\<^verbatim>\<open>np.dot\<close> of two vectors raises on a length mismatch.\<close>

definition np_dot :: "real list \<Rightarrow> real list \<Rightarrow> py_error + real" where
  "np_dot a b = (if length a \<noteq> length b then Inl ValueError
                 else Inr (sum_list (map (\<lambda>(x, y). x * y) (zip a b))))"

definition np_norm :: "real list \<Rightarrow> real" where
  "np_norm a = sqrt (sum_list (map (\<lambda>x. x * x) a))"

text \<open>
  \<^verbatim>\<open>np.argsort\<close>: the indices that put the scores in ascending order. NumPy's default
  sort leaves the order of equal keys to the implementation; the model fixes it as the
  stable order (equal keys stay in index order), which is what NumPy's insertion sort
  produces on the small arrays this corpus gives.
\<close>

definition np_argsort :: "real list \<Rightarrow> nat list" where
  "np_argsort a = sort_key (\<lambda>i. a ! i) [0..<length a]"

text \<open>The slice \<^verbatim>\<open>xs[i:]\<close>: a negative start counts from the end, and both are clamped.\<close>

definition slice_from :: "'a list \<Rightarrow> int \<Rightarrow> 'a list" where
  "slice_from xs i =
     (let n = int (length xs);
          j = (if i < 0 then max 0 (n + i) else min i n)
      in drop (nat j) xs)"

text \<open>
  The loop computing the cosine similarities. A zero vector makes NumPy divide by zero and
  yield NaN with a warning; HOL's division yields 0 there, so the theorems below assume
  embeddings of non-zero norm.
\<close>

fun similarities_loop :: "real list \<Rightarrow> real list list \<Rightarrow> real list \<Rightarrow> py_error + real list" where
  "similarities_loop query_embedding [] similarities = Inr similarities"
| "similarities_loop query_embedding (doc_embedding # rest) similarities =
     (case np_dot query_embedding doc_embedding of
        Inl e \<Rightarrow> Inl e
      | Inr d \<Rightarrow>
          similarities_loop query_embedding rest
            (similarities @ [d / (np_norm query_embedding * np_norm doc_embedding)]))"

definition top_k_indices :: "real list \<Rightarrow> int \<Rightarrow> nat list" where
  "top_k_indices similarities top_k = rev (slice_from (np_argsort similarities) (- top_k))"

definition make_result :: "Chunk list \<Rightarrow> real list \<Rightarrow> nat \<Rightarrow> SearchResult" where
  "make_result cs similarities idx =
     \<lparr>res_text = chunk_text (cs ! idx),
      res_article_number = meta_article_number (metadata (cs ! idx)),
      res_source = meta_source (metadata (cs ! idx)),
      relevance_score = similarities ! idx\<rparr>"

text \<open>
  The loop building the results. \<^verbatim>\<open>self.chunks[idx]\<close> and \<^verbatim>\<open>similarities[idx]\<close>
  raise when the index is out of range.
\<close>

fun results_loop ::
  "Chunk list \<Rightarrow> real list \<Rightarrow> nat list \<Rightarrow> SearchResult list \<Rightarrow> py_error + SearchResult list" where
  "results_loop cs similarities [] results = Inr results"
| "results_loop cs similarities (idx # rest) results =
     (if idx < length cs \<and> idx < length similarities
      then results_loop cs similarities rest (results @ [make_result cs similarities idx])
      else Inl IndexError)"

definition search :: "RegulatoryRetriever \<Rightarrow> string \<Rightarrow> int \<Rightarrow> py_error + SearchResult list" where
  "search self query top_k =
     (let query_embedding = embedder self query
      in case similarities_loop query_embedding (embeddings self) [] of
           Inl e \<Rightarrow> Inl e
         | Inr similarities \<Rightarrow>
             results_loop (chunks self) similarities (top_k_indices similarities top_k) [])"

section \<open>Notions used in the statements\<close>

text \<open>The score the similarity loop appends for one document.\<close>

definition cosine :: "real list \<Rightarrow> real list \<Rightarrow> real" where
  "cosine q d = sum_list (map (\<lambda>(x, y). x * y) (zip q d)) / (np_norm q * np_norm d)"

definition corpus_scores :: "(string \<Rightarrow> real list) \<Rightarrow> Chunk list \<Rightarrow> string \<Rightarrow> real list" where
  "corpus_scores encode loaded query =
     map (\<lambda>chunk. cosine (encode query) (encode (chunk_text chunk))) loaded"

text \<open>
  The order in which \<open>search\<close> ranks corpus positions \<open>i\<close> and \<open>j\<close> under the scores
  \<open>a\<close>: the higher score first and, among equal scores, the later position first.
\<close>

definition ranked_before :: "real list \<Rightarrow> nat \<Rightarrow> nat \<Rightarrow> bool" where
  "ranked_before a i j = (a ! i > a ! j \<or> (a ! i = a ! j \<and> i > j))"

text \<open>The block of the audit trail for row number \<open>i\<close>.\<close>

definition reference_lines :: "RegulatoryReference \<Rightarrow> string" where
  "reference_lines ref =
     ''    '' @ BULLET @ '' '' @ source ref @ NL @ ''      '' @ excerpt ref @ NL"

definition row_block :: "(real \<Rightarrow> string) \<Rightarrow> nat \<Rightarrow> CR1Row \<Rightarrow> string" where
  "row_block fgrp i r =
     ''Row '' @ str_nat i @ '': '' @ exposure_class_value (exposure_class r) @ NL
     @ ''  Exposure: '' @ POUND @ fgrp (original_exposure_value r) @ NL
     @ ''  Risk Weight: '' @ str_int (risk_weight_percent r) @ ''%'' @ NL
     @ ''  RWA: '' @ POUND @ fgrp (risk_weighted_assets r) @ NL
     @ NL @ ''  Regulatory Basis:'' @ NL
     @ concat (map reference_lines (regulatory_references r))
     @ NL @ replicate 70 (CHR ''-'') @ NL @ NL"

definition trail_header :: string where
  "trail_header =
     ''AUDIT TRAIL - REGULATORY JUSTIFICATION'' @ NL @ replicate 70 (CHR ''='') @ NL @ NL"

text \<open>The state after \<open>n\<close> successive calls of \<open>validate_row\<close> on the same row.\<close>

definition validate_row_repeated :: "(real \<Rightarrow> string) \<Rightarrow> addr \<Rightarrow> addr \<Rightarrow> nat \<Rightarrow> heap \<Rightarrow> heap" where
  "validate_row_repeated fstr self row n h = ((\<lambda>s. snd (validate_row fstr s self row)) ^^ n) h"

section \<open>Example data\<close>

text \<open>
  A stand-in for Python's float rendering on the values of the examples, and a store with
  three rows, two templates over the first two rows, and validators with empty lists.
\<close>

definition ex_fstr :: "real \<Rightarrow> string" where
  "ex_fstr x = (if x = 50000000 then ''50000000.0''
                else if x = 40000000 then ''40000000.0''
                else if x = 49999999 then ''49999999.0''
                else ''150000000.0'')"

definition ex_reference :: RegulatoryReference where
  "ex_reference = \<lparr>article_number = 122, source = ''CRR Article 122'', excerpt = ''Unrated corporates...''\<rparr>"

definition ex_corporate :: CR1Row where
  "ex_corporate = \<lparr>exposure_class = CORPORATES, original_exposure_value = 50000000,
     risk_weight_percent = 100, risk_weighted_assets = 50000000,
     regulatory_references = [ex_reference]\<rparr>"

definition ex_government :: CR1Row where
  "ex_government = \<lparr>exposure_class = CENTRAL_GOVERNMENTS, original_exposure_value = 100000000,
     risk_weight_percent = 0, risk_weighted_assets = 0,
     regulatory_references = []\<rparr>"

definition ex_mismatch :: CR1Row where
  "ex_mismatch = ex_corporate\<lparr>risk_weighted_assets := 40000000\<rparr>"

definition ex_heap :: heap where
  "ex_heap = \<lparr>row_at = (\<lambda>_. ex_corporate)(1 := ex_government, 2 := ex_mismatch),
     template_at = (\<lambda>_. \<lparr>rows = [0, 1], total_exposure = 150000000, total_rwa = 50000000\<rparr>)
                   (1 := \<lparr>rows = [0, 1], total_exposure = 150000000, total_rwa = 49999999\<rparr>),
     validator_at = (\<lambda>_. \<lparr>self_errors = [], self_warnings = []\<rparr>)\<rparr>"

text \<open>A stand-in for the grouped rendering \<^verbatim>\<open>{x:,.0f}\<close>, and a row that breaks every invariant.\<close>

definition ex_fgrp :: "real \<Rightarrow> string" where
  "ex_fgrp x = (if x = 100000000 then ''100,000,000'' else if x = 0 then ''0'' else ''-5'')"

definition ex_invalid :: CR1Row where
  "ex_invalid = \<lparr>exposure_class = RETAIL, original_exposure_value = - 5,
     risk_weight_percent = 1300, risk_weighted_assets = 0, regulatory_references = []\<rparr>"

text \<open>
  An embedding of fixed length 2 and norm 1, and a corpus of three chunks. For the query
  \<open>corporate\<close> the scores are 1, 0 and 0: the second and third chunk tie.
\<close>

definition ex_encode :: "string \<Rightarrow> real list" where
  "ex_encode t = (if t = ''corporate'' then [1, 0] else [0, 1])"

definition ex_chunks :: "Chunk list" where
  "ex_chunks =
     [\<lparr>chunk_text = ''corporate'', metadata = \<lparr>meta_article_number = 122, meta_source = ''Article 122''\<rparr>\<rparr>,
      \<lparr>chunk_text = ''mortgage'', metadata = \<lparr>meta_article_number = 125, meta_source = ''Article 125''\<rparr>\<rparr>,
      \<lparr>chunk_text = ''government'', metadata = \<lparr>meta_article_number = 114, meta_source = ''Article 114''\<rparr>\<rparr>]"

section \<open>The validator: frame and loop lemmas\<close>



lemma warnings_append_row_at: "row_at (warnings_append h self w) = row_at h"
  by (simp add: warnings_append_def)

lemma warnings_append_template_at: "template_at (warnings_append h self w) = template_at h"
  by (simp add: warnings_append_def)

lemma validate_row_row_at: "row_at (snd (validate_row fstr h self row)) = row_at h"
  by (simp add: validate_row_def Let_def warnings_append_row_at)

lemma validate_row_template_at: "template_at (snd (validate_row fstr h self row)) = template_at h"
  by (simp add: validate_row_def Let_def warnings_append_template_at)


lemma validate_rows_row_at: "row_at (snd (validate_rows fstr self i rs acc h)) = row_at h"
proof (induction rs arbitrary: i acc h)
  case Nil
  show ?case by simp
next
  case (Cons row rest)
  show ?case
    by (simp add: Cons.IH split_beta Let_def validate_row_row_at)
qed

lemma validate_rows_template_at: "template_at (snd (validate_rows fstr self i rs acc h)) = template_at h"
proof (induction rs arbitrary: i acc h)
  case Nil
  show ?case by simp
next
  case (Cons row rest)
  show ?case
    by (simp add: Cons.IH split_beta Let_def validate_row_template_at)
qed






lemma validate_template_row_at: "row_at (snd (validate_template fstr h self t)) = row_at h"
  by (simp add: validate_template_def split_beta Let_def validate_rows_row_at)

lemma validate_template_template_at: "template_at (snd (validate_template fstr h self t)) = template_at h"
  by (simp add: validate_template_def split_beta Let_def validate_rows_template_at)




lemma validate_row_repeated_template_at:
  "template_at (validate_row_repeated fstr self row n h) = template_at h"
  by (induction n) (simp_all add: validate_row_repeated_def validate_row_template_at)

section \<open>Similarity search: loops, ordering and slicing\<close>

lemma similarities_loop_ok:
  "(\<And>d. d \<in> set ds \<Longrightarrow> length d = length q) \<Longrightarrow>
   similarities_loop q ds sims = Inr (sims @ map (cosine q) ds)"
proof (induction ds arbitrary: sims)
  case Nil
  show ?case by simp
next
  case (Cons d ds)
  have len: "length q = length d" using Cons.prems [of d] by simp
  have rest: "\<And>d'. d' \<in> set ds \<Longrightarrow> length d' = length q" using Cons.prems by simp
  show ?case
    by (simp add: np_dot_def len Cons.IH [OF rest] cosine_def)
qed

lemma results_loop_ok:
  "(\<And>i. i \<in> set idxs \<Longrightarrow> i < length cs \<and> i < length sims) \<Longrightarrow>
   results_loop cs sims idxs acc = Inr (acc @ map (make_result cs sims) idxs)"
proof (induction idxs arbitrary: acc)
  case Nil
  show ?case by simp
next
  case (Cons i idxs)
  have here: "i < length cs \<and> i < length sims" using Cons.prems [of i] by simp
  have rest: "\<And>j. j \<in> set idxs \<Longrightarrow> j < length cs \<and> j < length sims" using Cons.prems by simp
  show ?case
    by (simp add: here Cons.IH [OF rest])
qed

lemma set_np_argsort: "set (np_argsort a) = {0..<length a}"
  by (simp add: np_argsort_def)

lemma length_np_argsort: "length (np_argsort a) = length a"
  by (simp add: np_argsort_def)

lemma insort_key_stable_order:
  fixes f :: "nat \<Rightarrow> real"
  assumes "sorted_wrt (\<lambda>i j. f i < f j \<or> (f i = f j \<and> i < j)) ys"
    and "\<And>y. y \<in> set ys \<Longrightarrow> x < y"
  shows "sorted_wrt (\<lambda>i j. f i < f j \<or> (f i = f j \<and> i < j)) (insort_key f x ys)"
  using assms
proof (induction ys)
  case Nil
  show ?case by simp
next
  case (Cons y ys)
  show ?case
  proof (cases "f x \<le> f y")
    case True
    have "\<And>z. z \<in> set (y # ys) \<Longrightarrow> f x < f z \<or> (f x = f z \<and> x < z)"
    proof -
      fix z assume z: "z \<in> set (y # ys)"
      have "f y \<le> f z" using Cons.prems(1) z by auto
      moreover have "x < z" using Cons.prems(2) z by blast
      ultimately show "f x < f z \<or> (f x = f z \<and> x < z)" using True by linarith
    qed
    then show ?thesis using True Cons.prems(1) by simp
  next
    case False
    have tail: "sorted_wrt (\<lambda>i j. f i < f j \<or> (f i = f j \<and> i < j)) (insort_key f x ys)"
      using Cons.IH Cons.prems by simp
    have "\<And>z. z \<in> set (insort_key f x ys) \<Longrightarrow> f y < f z \<or> (f y = f z \<and> y < z)"
      using Cons.prems(1) False by (auto simp: set_insort_key)
    then show ?thesis using False tail by simp
  qed
qed

lemma sort_key_stable_order:
  fixes f :: "nat \<Rightarrow> real"
  shows "sorted_wrt (<) xs \<Longrightarrow>
         sorted_wrt (\<lambda>i j. f i < f j \<or> (f i = f j \<and> i < j)) (sort_key f xs)"
proof (induction xs)
  case Nil
  show ?case by simp
next
  case (Cons x xs)
  have tail: "sorted_wrt (\<lambda>i j. f i < f j \<or> (f i = f j \<and> i < j)) (sort_key f xs)"
    using Cons by simp
  have above: "\<And>y. y \<in> set (sort_key f xs) \<Longrightarrow> x < y"
    using Cons.prems by simp
  show ?case
    using insort_key_stable_order [OF tail above] by simp
qed

lemma np_argsort_order:
  "sorted_wrt (\<lambda>i j. a ! i < a ! j \<or> (a ! i = a ! j \<and> i < j)) (np_argsort a)"
  unfolding np_argsort_def
  by (rule sort_key_stable_order) (simp add: sorted_wrt_upt)

lemma sorted_wrt_slice_from: "sorted_wrt R xs \<Longrightarrow> sorted_wrt R (slice_from xs i)"
  by (simp add: slice_from_def Let_def sorted_wrt_drop)

lemma set_slice_from: "set (slice_from xs i) \<subseteq> set xs"
  by (simp add: slice_from_def Let_def set_drop_subset)

lemma length_slice_from_neg:
  "length (slice_from xs (- k)) = (if 0 < k then min (nat k) (length xs) else length xs - nat (- k))"
  by (auto simp: slice_from_def Let_def)

lemma top_k_indices_order: "sorted_wrt (ranked_before a) (top_k_indices a k)"
proof -
  have "sorted_wrt (\<lambda>i j. a ! i < a ! j \<or> (a ! i = a ! j \<and> i < j)) (slice_from (np_argsort a) (- k))"
    by (rule sorted_wrt_slice_from) (rule np_argsort_order)
  moreover have "(\<lambda>x y. ranked_before a y x) = (\<lambda>i j. a ! i < a ! j \<or> (a ! i = a ! j \<and> i < j))"
    by (auto simp: ranked_before_def fun_eq_iff)
  ultimately show ?thesis
    by (simp add: top_k_indices_def sorted_wrt_rev)
qed

lemma set_top_k_indices: "i \<in> set (top_k_indices a k) \<Longrightarrow> i < length a"
  using set_slice_from [of "np_argsort a" "- k"]
  by (auto simp: top_k_indices_def set_np_argsort)

lemma length_top_k_indices:
  "length (top_k_indices a k) = (if 0 < k then min (nat k) (length a) else length a - nat (- k))"
  by (simp add: top_k_indices_def length_slice_from_neg length_np_argsort)

lemma search_loaded:
  assumes dim: "\<And>t. length (encode t) = n"
  shows "search (RegulatoryRetriever_init encode loaded) query top_k =
         Inr (map (make_result loaded (corpus_scores encode loaded query))
                  (top_k_indices (corpus_scores encode loaded query) top_k))"
proof -
  have sims: "similarities_loop (encode query) (map (\<lambda>chunk. encode (chunk_text chunk)) loaded) []
              = Inr (corpus_scores encode loaded query)"
    by (subst similarities_loop_ok) (auto simp: dim corpus_scores_def comp_def)
  have idx: "\<And>i. i \<in> set (top_k_indices (corpus_scores encode loaded query) top_k) \<Longrightarrow>
                 i < length loaded \<and> i < length (corpus_scores encode loaded query)"
    using set_top_k_indices [of _ "corpus_scores encode loaded query" top_k]
    by (simp add: corpus_scores_def)
  show ?thesis
    by (simp add: search_def RegulatoryRetriever_init_def sims results_loop_ok [OF idx])
qed

lemma ex_encode_length: "length (ex_encode t) = 2"
  by (simp add: ex_encode_def)

lemma ex_encode_norm: "np_norm (ex_encode t) \<noteq> 0"
  by (simp add: ex_encode_def np_norm_def)







lemma relevance_score_make_result: "relevance_score (make_result cs a i) = a ! i"
  by (simp add: make_result_def)

lemma ranked_results_sorted:
  "sorted_wrt (\<lambda>r s. relevance_score r \<ge> relevance_score s)
     (map (make_result cs a) (top_k_indices a k))"
proof -
  have "sorted_wrt (\<lambda>i j. a ! i \<ge> a ! j) (top_k_indices a k)"
    by (rule sorted_wrt_mono_rel [OF _ top_k_indices_order]) (auto simp: ranked_before_def)
  then show ?thesis
    by (simp add: sorted_wrt_map relevance_score_make_result)
qed


section \<open>The audit trail: loop lemmas\<close>

lemma trail_references_eq:
  "trail_references refs trail = trail @ concat (map reference_lines refs)"
  by (induction refs arbitrary: trail) (simp_all add: reference_lines_def Let_def)

lemma trail_rows_eq:
  "trail_rows fgrp h i rs trail =
     trail @ concat (map (\<lambda>(j, row). row_block fgrp j (row_at h row)) (enumerate i rs))"
proof (induction rs arbitrary: i trail)
  case Nil
  show ?case by simp
next
  case (Cons row rest)
  show ?case
    by (simp add: Cons.IH Let_def trail_references_eq row_block_def)
qed

lemma str_nat_1: "str_nat 1 = ''1''"
  by code_simp

lemma str_nat_Suc_0: "str_nat (Suc 0) = ''1''"
  using str_nat_1 by simp

lemma str_int_1300: "str_int 1300 = ''1300''"
  by code_simp

section \<open>Claims about the validator\<close>








text \<open>
  C10. Validation never mutates its input: after \<open>validate_row\<close> and after
  \<open>validate_template\<close> every row object and every template object of the store, with all
  its fields, is what it was before the call.
\<close>

theorem validation_never_mutates_input:
  "row_at (snd (validate_row fstr h self row)) = row_at h
   \<and> template_at (snd (validate_row fstr h self row)) = template_at h
   \<and> row_at (snd (validate_template fstr h self t)) = row_at h
   \<and> template_at (snd (validate_template fstr h self t)) = template_at h"
  by (simp add: validate_row_row_at validate_row_template_at
        validate_template_row_at validate_template_template_at)

text \<open>The second template and its second row, read back after validation.\<close>

theorem validation_never_mutates_input_witness:
  "row_at (snd (validate_row ex_fstr ex_heap 0 1)) 1 = ex_government
   \<and> row_at (snd (validate_template ex_fstr ex_heap 0 1)) 1 = ex_government
   \<and> template_at (snd (validate_template ex_fstr ex_heap 0 1)) 1
       = \<lparr>rows = [0, 1], total_exposure = 150000000, total_rwa = 49999999\<rparr>"
  using validation_never_mutates_input [of ex_fstr ex_heap 0 1 1]
  by (simp add: ex_heap_def)

text \<open>
  C8. Validating the same template twice with the same validator: the row without
  references adds its warning to \<^verbatim>\<open>self.warnings\<close> on every call and nothing ever clears
  that list, so the first call returns one warning and the second call returns two. The
  first result holds the same list object, so after the second call it shows two warnings
  as well.
\<close>

theorem validate_template_twice_accumulates_warnings:
  "(let h0 = CR1Validator_init ex_heap 0;
        (r1, h1) = validate_template ex_fstr h0 0 0;
        (r2, h2) = validate_template ex_fstr h1 0 0
    in deref h1 (warnings r1)
         = [''No regulatory references for Central governments or central banks'']
     \<and> deref h2 (warnings r2)
         = [''No regulatory references for Central governments or central banks'',
            ''No regulatory references for Central governments or central banks'']
     \<and> deref h2 (warnings r1) = deref h2 (warnings r2)
     \<and> is_valid r1 = is_valid r2
     \<and> errors r1 = errors r2
     \<and> validator_at h1 0 \<noteq> validator_at h0 0)"
  by (simp add: CR1Validator_init_def validate_template_def validate_row_def warnings_append_def
        validate_totals_def py_sum_def
        calculate_rwa_def ex_heap_def ex_corporate_def ex_government_def Let_def split_beta)

section \<open>Claims about the audit trail\<close>

text \<open>
  C9. \<open>generate_audit_trail\<close> has no failing branch and performs no validation: for every
  list of rows the trail is the header followed, row by row in input order, by the block
  with the 1-based row number, the exposure class label, the exposure value, the risk
  weight, the RWA and the source and excerpt of every reference in citation order. It does
  not read the validators.
\<close>

theorem generate_audit_trail_total_and_ordered:
  "generate_audit_trail fgrp h rs =
     trail_header @ concat (map (\<lambda>(i, row). row_block fgrp i (row_at h row)) (enumerate 1 rs))
   \<and> generate_audit_trail fgrp (h\<lparr>validator_at := vs\<rparr>) rs = generate_audit_trail fgrp h rs"
  by (simp add: generate_audit_trail_def Let_def trail_rows_eq trail_header_def)

text \<open>A single row that violates every invariant and cites nothing.\<close>

theorem generate_audit_trail_total_and_ordered_witness:
  "generate_audit_trail ex_fgrp (ex_heap\<lparr>row_at := (row_at ex_heap)(3 := ex_invalid)\<rparr>) [3] =
     ''AUDIT TRAIL - REGULATORY JUSTIFICATION'' @ NL @ replicate 70 (CHR ''='') @ NL @ NL
     @ ''Row 1: Retail'' @ NL
     @ ''  Exposure: '' @ POUND @ ''-5'' @ NL
     @ ''  Risk Weight: 1300%'' @ NL
     @ ''  RWA: '' @ POUND @ ''0'' @ NL
     @ NL @ ''  Regulatory Basis:'' @ NL
     @ NL @ replicate 70 (CHR ''-'') @ NL @ NL"
  using generate_audit_trail_total_and_ordered [of ex_fgrp "ex_heap\<lparr>row_at := (row_at ex_heap)(3 := ex_invalid)\<rparr>" "[3]", THEN conjunct1]
  by (simp add: trail_header_def row_block_def ex_invalid_def ex_fgrp_def enumerate_eq_zip
        str_int_1300 str_nat_Suc_0)

section \<open>Claims about similarity search\<close>

text \<open>
  C1. On a loaded corpus, with an embedding model of fixed output length and non-zero norm,
  \<open>search\<close> with \<open>top_k\<close> at least 1 returns without error a sequence of
  min(top_k, corpus size) results whose relevance scores never increase; when \<open>top_k\<close>
  exceeds the corpus size that is the whole corpus.
\<close>

theorem search_top_k_sorted:
  assumes "\<And>t. length (encode t) = n"
    and "\<And>t. np_norm (encode t) \<noteq> 0"
    and "1 \<le> top_k"
  shows "\<exists>results. search (RegulatoryRetriever_init encode loaded) query top_k = Inr results
           \<and> length results = min (nat top_k) (length loaded)
           \<and> sorted_wrt (\<lambda>r s. relevance_score r \<ge> relevance_score s) results"
proof -
  let ?a = "corpus_scores encode loaded query"
  have len: "length ?a = length loaded"
    by (simp add: corpus_scores_def)
  have "search (RegulatoryRetriever_init encode loaded) query top_k
        = Inr (map (make_result loaded ?a) (top_k_indices ?a top_k))"
    using assms(1) by (rule search_loaded)
  moreover have "length (map (make_result loaded ?a) (top_k_indices ?a top_k))
                 = min (nat top_k) (length loaded)"
    using assms(3) by (simp add: length_top_k_indices len)
  ultimately show ?thesis
    using ranked_results_sorted [of loaded ?a top_k] by blast
qed

text \<open>The example corpus, asked for two results and for five.\<close>

theorem search_top_k_sorted_witness:
  "(\<exists>results. search (RegulatoryRetriever_init ex_encode ex_chunks) ''corporate'' 2 = Inr results
       \<and> length results = 2
       \<and> sorted_wrt (\<lambda>r s. relevance_score r \<ge> relevance_score s) results)
   \<and> (\<exists>results. search (RegulatoryRetriever_init ex_encode ex_chunks) ''corporate'' 5 = Inr results
       \<and> length results = 3
       \<and> sorted_wrt (\<lambda>r s. relevance_score r \<ge> relevance_score s) results)"
proof -
  have two: "min (nat 2) (length ex_chunks) = 2" and all: "min (nat 5) (length ex_chunks) = 3"
    by (simp_all add: ex_chunks_def)
  show ?thesis
    using search_top_k_sorted [of ex_encode 2 2 ex_chunks "''corporate''", OF ex_encode_length ex_encode_norm]
          search_top_k_sorted [of ex_encode 2 5 ex_chunks "''corporate''", OF ex_encode_length ex_encode_norm]
    unfolding two all by simp
qed




text \<open>
  C5, as claimed: \<open>search\<close> on an empty corpus fails. It does not: the loops run zero
  times and the result is the empty list.
\<close>

theorem search_empty_corpus_counterexample:
  "search (RegulatoryRetriever_init ex_encode []) ''corporate'' 3 = Inr []"
  by (simp add: search_def RegulatoryRetriever_init_def top_k_indices_def np_argsort_def slice_from_def)

text \<open>
  C5, amended. On an empty corpus \<open>search\<close> returns the empty result sequence without
  error, for every embedding model, query and \<open>top_k\<close>.
\<close>

theorem search_empty_corpus_returns_empty:
  "search (RegulatoryRetriever_init encode []) query top_k = Inr []"
  by (simp add: search_def RegulatoryRetriever_init_def top_k_indices_def np_argsort_def slice_from_def)




end
